theory Spec2Isabelle
  imports Main "HOL-Library.Word"
begin

section \<open>Statistics records\<close>

text \<open>
  The model follows \<^verbatim>\<open>source/statistics.c\<close>. Unsigned 64-bit and 32-bit
  members are words of that width; pointers that the code compares with
  \<^verbatim>\<open>NULL\<close> are options, with \<open>None\<close> for \<^verbatim>\<open>NULL\<close>.
\<close>

type_synonym uint64_t = "64 word"
type_synonym uint32_t = "32 word"

definition UINT64_MAX :: uint64_t where
  "UINT64_MAX = 18446744073709551615"

datatype aws_crt_statistics_category = AWSCRT_STAT_CAT_SOCKET | AWSCRT_STAT_CAT_TLS

text \<open>
  Modelled from the spec: the enumeration \<^verbatim>\<open>aws_tls_negotiation_status\<close> is
  declared in a header that is not part of the source file. The file names the
  values None and Ongoing; the spec lists the four values None, Ongoing,
  Success and Failure.
\<close>

datatype aws_tls_negotiation_status =
  AWS_MTLS_STATUS_NONE | AWS_MTLS_STATUS_ONGOING | AWS_MTLS_STATUS_SUCCESS | AWS_MTLS_STATUS_FAILURE

text \<open>
  Modelled from the spec: the statistics structs are declared in
  \<^verbatim>\<open>aws/io/statistics.h\<close>, which is not part of the source file. The file
  reads and writes the members \<^verbatim>\<open>category\<close>, \<^verbatim>\<open>bytes_read\<close>,
  \<^verbatim>\<open>bytes_written\<close> and \<^verbatim>\<open>handshake_status\<close>; the spec gives the counters
  64 bits and calls a record a tagged union by category. Every struct starts
  with its category, and a list of statistics holds pointers to that common
  prefix which the reader casts back after looking at the category. The model
  is the tagged union: the category is the constructor, and the remaining
  members are the record under it.
\<close>

record aws_crt_statistics_socket =
  bytes_read :: uint64_t
  bytes_written :: uint64_t

record aws_crt_statistics_tls =
  handshake_status :: aws_tls_negotiation_status

datatype aws_crt_statistics_base =
  Socket_stats aws_crt_statistics_socket
| Tls_stats aws_crt_statistics_tls

fun category :: "aws_crt_statistics_base \<Rightarrow> aws_crt_statistics_category" where
  "category (Socket_stats s) = AWSCRT_STAT_CAT_SOCKET"
| "category (Tls_stats t) = AWSCRT_STAT_CAT_TLS"

text \<open>
  The init functions zero the struct and set its category; they always succeed,
  and the model gives the struct they leave. The reset functions take the
  struct and give it back as they leave it.
\<close>

definition aws_crt_statistics_socket_init :: "aws_crt_statistics_socket" where
  "aws_crt_statistics_socket_init = \<lparr>bytes_read = 0, bytes_written = 0\<rparr>"

definition aws_crt_statistics_socket_reset ::
  "aws_crt_statistics_socket \<Rightarrow> aws_crt_statistics_socket" where
  "aws_crt_statistics_socket_reset stats = stats\<lparr>bytes_read := 0, bytes_written := 0\<rparr>"

definition aws_crt_statistics_tls_init :: "aws_crt_statistics_tls" where
  "aws_crt_statistics_tls_init = \<lparr>handshake_status = AWS_MTLS_STATUS_NONE\<rparr>"

definition aws_crt_statistics_tls_reset ::
  "aws_crt_statistics_tls \<Rightarrow> aws_crt_statistics_tls" where
  "aws_crt_statistics_tls_reset stats = stats"

section \<open>Collaborators\<close>

text \<open>
  The error codes the model needs: the one a failed lookup raises and the one
  the monitor passes to the channel.
\<close>

datatype aws_error = AWS_ERROR_INVALID_INDEX | AWS_IO_CHANNEL_TLS_TIMEOUT

text \<open>
  Modelled from the spec: the dynamic array \<^verbatim>\<open>aws_array_list\<close> belongs to the
  common library; the spec takes the generic dynamic-array utilities as
  collaborators that behave correctly. An array list is the list of its items:
  the length is the number of items, \<^verbatim>\<open>aws_array_list_get_at\<close> copies the item
  out when the index is below the length and fails otherwise, and
  \<^verbatim>\<open>aws_array_list_push_back\<close> appends.
\<close>

definition aws_array_list_length :: "'a list \<Rightarrow> nat" where
  "aws_array_list_length xs = length xs"

definition aws_array_list_get_at :: "'a list \<Rightarrow> nat \<Rightarrow> aws_error + 'a" where
  "aws_array_list_get_at xs i =
     (if i < aws_array_list_length xs then Inr (xs ! i) else Inl AWS_ERROR_INVALID_INDEX)"

definition aws_array_list_push_back :: "'a list \<Rightarrow> 'a \<Rightarrow> 'a list" where
  "aws_array_list_push_back xs x = xs @ [x]"

text \<open>
  Modelled from the spec: the sample interval is declared in the header; the
  file reads \<^verbatim>\<open>end_time_ms\<close> only, and the spec gives the interval the two
  unsigned 64-bit members \<^verbatim>\<open>start_time_ms\<close> and \<^verbatim>\<open>end_time_ms\<close>.
\<close>

record aws_crt_statistics_sample_interval =
  start_time_ms :: uint64_t
  end_time_ms :: uint64_t

text \<open>
  Modelled from the spec: \<^verbatim>\<open>struct aws_crt_statistics_handler\<close> is declared in
  the header; the file uses its members \<^verbatim>\<open>vtable\<close>, \<^verbatim>\<open>allocator\<close> and
  \<^verbatim>\<open>impl\<close>. The record has the allocator and the implementation pointer, both
  \<^verbatim>\<open>NULL\<close> after \<^verbatim>\<open>AWS_ZERO_STRUCT\<close>. The vtable member is fixed per kind of
  handler and is the choice among the functions below.
\<close>

record ('a, 'i) aws_crt_statistics_handler =
  allocator :: "'a option"
  impl :: "'i option"

text \<open>
  What a function does to the world outside the source file is the list of the
  calls it makes, in order. A chain calls the handler entry points
  \<^verbatim>\<open>aws_crt_statistics_handler_process_statistics\<close> and
  \<^verbatim>\<open>aws_crt_statistics_handler_destroy\<close> on its members, which are pointers of
  type \<open>'h option\<close>; it cleans up its array list and releases memory through
  \<^verbatim>\<open>aws_mem_release\<close>; the monitor calls \<^verbatim>\<open>aws_channel_shutdown\<close>. None of
  these is defined in the source file, so a call is recorded with its arguments
  and nothing is assumed about what it does. An abort is a read through a
  \<^verbatim>\<open>NULL\<close> implementation pointer or a failed \<^verbatim>\<open>AWS_FATAL_ASSERT\<close>.
\<close>

datatype ('h, 'c) process_call =
  Process_statistics "'h option" aws_crt_statistics_sample_interval
    "aws_crt_statistics_base list" 'c

datatype ('a, 'h) destroy_call =
  Handler_destroy "'h option"
| Array_list_clean_up
| Mem_release "'a option"

datatype 'c channel_call = Channel_shutdown 'c aws_error

datatype abort = Null_dereference | Fatal_assert

section \<open>Handler chain\<close>

record 'h aws_crt_statistics_handler_chain_impl =
  handlers :: "'h option list"
  report_interval_ms :: uint64_t

type_synonym ('a, 'h) chain_handler =
  "('a, 'h aws_crt_statistics_handler_chain_impl) aws_crt_statistics_handler"

text \<open>
  The loop of \<^verbatim>\<open>s_chain_process_statistics\<close>, with the lookup it performs at
  each index as an argument: it runs \<open>i\<close> from 0 below the count read before
  it, goes on to the next index when the lookup fails, and hands every item it
  got, whatever the pointer is, to
  \<^verbatim>\<open>aws_crt_statistics_handler_process_statistics\<close>.
\<close>

definition s_chain_process_loop ::
  "(nat \<Rightarrow> aws_error + 'h option) \<Rightarrow> nat \<Rightarrow> aws_crt_statistics_sample_interval \<Rightarrow>
   aws_crt_statistics_base list \<Rightarrow> 'c \<Rightarrow> ('h, 'c) process_call list" where
  "s_chain_process_loop get_at handler_count interval stats_list context =
     fold
       (\<lambda>i calls.
          case get_at i of
            Inl _ \<Rightarrow> calls
          | Inr h \<Rightarrow> calls @ [Process_statistics h interval stats_list context])
       [0..<handler_count] []"

text \<open>
  The function itself runs that loop with the lookup in the member list of the
  chain and the length of that list. Reading \<^verbatim>\<open>handler->impl\<close> of a handler
  without implementation is the abort \<open>Null_dereference\<close>.
\<close>

definition s_chain_process_statistics ::
  "('a, 'h) chain_handler \<Rightarrow> aws_crt_statistics_sample_interval \<Rightarrow>
   aws_crt_statistics_base list \<Rightarrow> 'c \<Rightarrow> abort + ('h, 'c) process_call list" where
  "s_chain_process_statistics handler interval stats_list context =
     (case impl handler of
        None \<Rightarrow> Inl Null_dereference
      | Some impl' \<Rightarrow>
          let handler_count = aws_array_list_length (handlers impl') in
          Inr (s_chain_process_loop (aws_array_list_get_at (handlers impl')) handler_count
                 interval stats_list context))"

text \<open>
  The items that the lookups at the indices below \<open>n\<close> give, in index order,
  the failed lookups left out.
\<close>

definition looked_up :: "(nat \<Rightarrow> aws_error + 'x) \<Rightarrow> nat \<Rightarrow> 'x list" where
  "looked_up get_at n =
     concat (map (\<lambda>i. case get_at i of Inl e \<Rightarrow> [] | Inr x \<Rightarrow> [x]) [0..<n])"

definition s_chain_destroy :: "('a, 'h) chain_handler option \<Rightarrow> ('a, 'h) destroy_call list" where
  "s_chain_destroy handler =
     (case handler of
        None \<Rightarrow> []
      | Some hd' \<Rightarrow>
          (case impl hd' of
             None \<Rightarrow> []
           | Some impl' \<Rightarrow>
               let handler_count = aws_array_list_length (handlers impl') in
               fold
                 (\<lambda>i calls.
                    case aws_array_list_get_at (handlers impl') i of
                      Inl _ \<Rightarrow> calls
                    | Inr sub_handler \<Rightarrow> calls @ [Handler_destroy sub_handler])
                 [0..<handler_count] []
               @ [Array_list_clean_up])
          @ [Mem_release (allocator hd')])"

definition s_chain_get_report_interval_ms :: "('a, 'h) chain_handler \<Rightarrow> abort + uint64_t" where
  "s_chain_get_report_interval_ms handler =
     (case impl handler of
        None \<Rightarrow> Inl Null_dereference
      | Some impl' \<Rightarrow> Inr (report_interval_ms impl'))"

text \<open>
  The constructor. \<open>acquired\<close> says whether \<^verbatim>\<open>aws_mem_acquire_many\<close> returned
  memory and \<open>list_ready\<close> whether \<^verbatim>\<open>aws_array_list_init_dynamic\<close> succeeded;
  \<open>get_report_interval_ms\<close> is \<^verbatim>\<open>aws_crt_statistics_handler_get_report_interval_ms\<close>,
  the cadence each member answers with. The array \<open>handlers_in\<close> has
  \<^verbatim>\<open>handler_count\<close> entries. The list was sized for all of them, so no
  \<^verbatim>\<open>push_back\<close> fails. On the error path the handler is still all zero when it
  is handed to \<open>s_chain_destroy\<close>. The result is the returned pointer and the
  calls made on the way.
\<close>

definition aws_statistics_handler_new_chain ::
  "'a option \<Rightarrow> bool \<Rightarrow> bool \<Rightarrow> ('h option \<Rightarrow> uint64_t) \<Rightarrow> 'h option list \<Rightarrow>
   ('a, 'h) chain_handler option \<times> ('a, 'h) destroy_call list" where
  "aws_statistics_handler_new_chain allocator' acquired list_ready get_report_interval_ms
     handlers_in =
     (if \<not> acquired then (None, [])
      else if \<not> list_ready then
        (None, s_chain_destroy (Some \<lparr>allocator = None, impl = None\<rparr>))
      else
        let handler_count = length handlers_in;
            (members, min_report_interval_ms) =
              fold
                (\<lambda>i (members, min_report_interval_ms).
                   let members' = aws_array_list_push_back members (handlers_in ! i);
                       report_interval_ms' = get_report_interval_ms (handlers_in ! i)
                   in (members',
                       if report_interval_ms' < min_report_interval_ms
                       then report_interval_ms' else min_report_interval_ms))
                [0..<handler_count] ([], UINT64_MAX)
        in (Some \<lparr>allocator = allocator',
                  impl = Some \<lparr>handlers = members,
                               report_interval_ms = min_report_interval_ms\<rparr>\<rparr>, []))"

section \<open>TLS monitor\<close>

text \<open>
  Modelled from the spec: the options struct is declared in the header; the
  constructor reads its member \<^verbatim>\<open>tls_timeout_ms\<close>, which the spec gives 32
  bits, with 0 for a disabled monitor.
\<close>

record aws_tls_monitor_options =
  tls_timeout_ms :: uint32_t

record aws_statistics_handler_tls_monitor_impl =
  tls_timeout_ms :: uint32_t
  tls_start_time_ms :: uint64_t

type_synonym 'a tls_monitor_handler =
  "('a, aws_statistics_handler_tls_monitor_impl) aws_crt_statistics_handler"

text \<open>
  One round of the scanning loop, on the implementation struct and the local
  \<^verbatim>\<open>tls_status\<close>: the \<^verbatim>\<open>switch\<close> on the category of the item.
\<close>

fun s_tls_monitor_visit ::
  "aws_crt_statistics_sample_interval \<Rightarrow> aws_crt_statistics_base \<Rightarrow>
   aws_statistics_handler_tls_monitor_impl \<times> aws_tls_negotiation_status \<Rightarrow>
   aws_statistics_handler_tls_monitor_impl \<times> aws_tls_negotiation_status" where
  "s_tls_monitor_visit interval (Tls_stats tls_stats) (impl', tls_status) =
     (let tls_status' = handshake_status tls_stats in
      (if tls_status' \<noteq> AWS_MTLS_STATUS_NONE \<and> tls_start_time_ms impl' = 0
       then impl'\<lparr>tls_start_time_ms := end_time_ms interval\<rparr>
       else impl',
       tls_status'))"
| "s_tls_monitor_visit interval (Socket_stats socket_stats) (impl', tls_status) =
     (impl', tls_status)"

definition s_tls_monitor_scan ::
  "aws_statistics_handler_tls_monitor_impl \<Rightarrow> aws_crt_statistics_sample_interval \<Rightarrow>
   aws_crt_statistics_base list \<Rightarrow>
   aws_statistics_handler_tls_monitor_impl \<times> aws_tls_negotiation_status" where
  "s_tls_monitor_scan impl' interval stats_list =
     (let stats_count = aws_array_list_length stats_list in
      fold
        (\<lambda>i st.
           case aws_array_list_get_at stats_list i of
             Inl _ \<Rightarrow> st
           | Inr stats_base \<Rightarrow> s_tls_monitor_visit interval stats_base st)
        [0..<stats_count] (impl', AWS_MTLS_STATUS_NONE))"

text \<open>
  The whole of \<^verbatim>\<open>s_tls_monitor_process_statistics\<close>: the scan, the early
  return, the fatal assertion, the comparison of the unsigned 64-bit
  difference with the 32-bit timeout, and the shutdown of the channel that
  \<^verbatim>\<open>context\<close> points to. The result is the handler with its updated
  implementation struct and the calls made on the channel, or the abort. The
  log line is not modelled.
\<close>

definition s_tls_monitor_process_statistics ::
  "'a tls_monitor_handler \<Rightarrow> aws_crt_statistics_sample_interval \<Rightarrow>
   aws_crt_statistics_base list \<Rightarrow> 'c \<Rightarrow>
   abort + ('a tls_monitor_handler \<times> 'c channel_call list)" where
  "s_tls_monitor_process_statistics handler interval stats_list context =
     (case impl handler of
        None \<Rightarrow> Inl Null_dereference
      | Some impl0 \<Rightarrow>
          let (impl', tls_status) = s_tls_monitor_scan impl0 interval stats_list;
              handler' = handler\<lparr>impl := Some impl'\<rparr>
          in if tls_timeout_ms impl' = 0 \<or> tls_status \<noteq> AWS_MTLS_STATUS_ONGOING
             then Inr (handler', [])
             else if \<not> (end_time_ms interval \<ge> tls_start_time_ms impl')
             then Inl Fatal_assert
             else if end_time_ms interval - tls_start_time_ms impl' < ucast (tls_timeout_ms impl')
             then Inr (handler', [])
             else Inr (handler', [Channel_shutdown context AWS_IO_CHANNEL_TLS_TIMEOUT]))"

definition s_tls_monitor_get_report_interval_ms :: "'a tls_monitor_handler \<Rightarrow> uint64_t" where
  "s_tls_monitor_get_report_interval_ms handler = 1000"

text \<open>
  The constructor; \<open>acquired\<close> says whether \<^verbatim>\<open>aws_mem_acquire_many\<close> returned
  memory.
\<close>

definition aws_crt_statistics_handler_new_tls_monitor ::
  "'a option \<Rightarrow> bool \<Rightarrow> aws_tls_monitor_options \<Rightarrow> 'a tls_monitor_handler option" where
  "aws_crt_statistics_handler_new_tls_monitor allocator' acquired options =
     (if \<not> acquired then None
      else Some \<lparr>allocator = allocator',
                 impl = Some \<lparr>tls_timeout_ms = aws_tls_monitor_options.tls_timeout_ms options,
                              tls_start_time_ms = 0\<rparr>\<rparr>)"

subsection \<open>Successive deliveries\<close>

text \<open>
  The scheduler calls the process operation once per closed interval. A run
  feeds a list of deliveries to the monitor one after the other, each call
  starting from the handler the call before left; it collects the channel
  calls and stops at an abort, which ends the process.
\<close>

type_synonym 'c delivery =
  "aws_crt_statistics_sample_interval \<times> aws_crt_statistics_base list \<times> 'c"

fun tls_monitor_run ::
  "'a tls_monitor_handler \<Rightarrow> 'c delivery list \<Rightarrow>
   'c channel_call list \<times> (abort + 'a tls_monitor_handler)" where
  "tls_monitor_run handler [] = ([], Inr handler)"
| "tls_monitor_run handler ((interval, stats_list, context) # rest) =
     (case s_tls_monitor_process_statistics handler interval stats_list context of
        Inl a \<Rightarrow> ([], Inl a)
      | Inr (handler', calls) \<Rightarrow>
          (case tls_monitor_run handler' rest of
             (calls', r) \<Rightarrow> (calls @ calls', r)))"

subsection \<open>What a record list shows\<close>

text \<open>
  The handshake statuses of the TLS records of a list, in list order; the last
  of them, \<^verbatim>\<open>AWS_MTLS_STATUS_NONE\<close> when the list has no TLS record; and
  whether some TLS record shows a status other than \<^verbatim>\<open>AWS_MTLS_STATUS_NONE\<close>.
\<close>

fun tls_statuses :: "aws_crt_statistics_base list \<Rightarrow> aws_tls_negotiation_status list" where
  "tls_statuses [] = []"
| "tls_statuses (Tls_stats t # rest) = handshake_status t # tls_statuses rest"
| "tls_statuses (Socket_stats s # rest) = tls_statuses rest"

definition last_tls_status :: "aws_crt_statistics_base list \<Rightarrow> aws_tls_negotiation_status" where
  "last_tls_status stats_list =
     (if tls_statuses stats_list = [] then AWS_MTLS_STATUS_NONE
      else last (tls_statuses stats_list))"

definition handshake_seen :: "aws_crt_statistics_base list \<Rightarrow> bool" where
  "handshake_seen stats_list =
     list_ex (\<lambda>st. st \<noteq> AWS_MTLS_STATUS_NONE) (tls_statuses stats_list)"

text \<open>
  The start time the monitor holds once it has scanned a record list: the end
  of the interval when the field was still 0 and the list shows a handshake,
  the field as it was otherwise.
\<close>

definition start_time_after ::
  "aws_statistics_handler_tls_monitor_impl \<Rightarrow> aws_crt_statistics_sample_interval \<Rightarrow>
   aws_crt_statistics_base list \<Rightarrow> uint64_t" where
  "start_time_after impl' interval stats_list =
     (if tls_start_time_ms impl' = 0 \<and> handshake_seen stats_list
      then end_time_ms interval else tls_start_time_ms impl')"

section \<open>Loops over an array list\<close>

text \<open>
  A loop over the indices below the length that skips failed lookups visits
  every item once, in list order.
\<close>

lemma fold_get_at:
  "fold (\<lambda>i s. case aws_array_list_get_at xs i of Inl _ \<Rightarrow> s | Inr x \<Rightarrow> f x s)
     [0..<aws_array_list_length xs] s0 = fold f xs s0"
proof -
  have "fold (\<lambda>i s. case aws_array_list_get_at xs i of Inl _ \<Rightarrow> s | Inr x \<Rightarrow> f x s)
          [0..<length xs] s0 = fold (\<lambda>i. f (xs ! i)) [0..<length xs] s0"
    by (rule fold_cong) (simp_all add: aws_array_list_get_at_def aws_array_list_length_def)
  also have "\<dots> = fold f (map ((!) xs) [0..<length xs]) s0"
    by (simp add: fold_map comp_def)
  also have "\<dots> = fold f xs s0"
    by (simp add: map_nth)
  finally show ?thesis by (simp add: aws_array_list_length_def)
qed

lemma fold_snoc_calls: "fold (\<lambda>x calls. calls @ [g x]) xs acc = acc @ map g xs"
  by (induction xs arbitrary: acc) simp_all

section \<open>Facts about the chain\<close>

lemma UINT64_MAX_top: "x \<le> UINT64_MAX"
proof -
  have e: "UINT64_MAX = - 1" by (simp add: UINT64_MAX_def)
  show ?thesis unfolding e by simp
qed

lemma min_UINT64_MAX: "min UINT64_MAX x = x"
  by (simp add: min_absorb2 UINT64_MAX_top)

lemma fold_min_Min:
  "fold (\<lambda>x m. if g x < m then g x else m) xs (M::'b::linorder) = Min (insert M (g ` set xs))"
proof (induction xs arbitrary: M)
  case Nil
  show ?case by simp
next
  case (Cons x xs)
  have "Min (insert (if g x < M then g x else M) (g ` set xs))
      = Min (insert M (insert (g x) (g ` set xs)))"
    by (cases "g ` set xs = {}") (auto simp: min_def)
  then show ?case using Cons.IH by simp
qed

lemma new_chain_loop:
  "fold (\<lambda>i (members, m).
           let members' = aws_array_list_push_back members (xs ! i);
               r = g (xs ! i)
           in (members', if r < m then r else m))
     [0..<length xs] (ms, M)
   = (ms @ xs, fold (\<lambda>x m. if g x < m then g x else m) xs M)"
proof -
  have "fold (\<lambda>i (members, m).
           let members' = aws_array_list_push_back members (xs ! i);
               r = g (xs ! i)
           in (members', if r < m then r else m))
     [0..<length xs] (ms, M)
     = fold (\<lambda>x (members, m). (members @ [x], if g x < m then g x else m))
         (map ((!) xs) [0..<length xs]) (ms, M)"
    by (simp add: fold_map comp_def Let_def aws_array_list_push_back_def)
  also have "\<dots> = fold (\<lambda>x (members, m). (members @ [x], if g x < m then g x else m)) xs (ms, M)"
    by (simp add: map_nth)
  also have "\<dots> = (ms @ xs, fold (\<lambda>x m. if g x < m then g x else m) xs M)"
    by (induction xs arbitrary: ms M) simp_all
  finally show ?thesis .
qed

lemma new_chain_ok:
  "aws_statistics_handler_new_chain a True True g hs =
    (Some \<lparr>allocator = a,
           impl = Some \<lparr>handlers = hs,
                        report_interval_ms = Min (insert UINT64_MAX (g ` set hs))\<rparr>\<rparr>, [])"
  using new_chain_loop [where xs = hs and g = g and ms = "[]" and M = UINT64_MAX]
  by (simp add: aws_statistics_handler_new_chain_def fold_min_Min Let_def)

lemma new_chain_Some:
  assumes "aws_statistics_handler_new_chain a acquired list_ready cadence hs = (Some chain, calls)"
  shows "chain = \<lparr>allocator = a, impl = Some \<lparr>handlers = hs,
              report_interval_ms = Min (insert UINT64_MAX (cadence ` set hs))\<rparr>\<rparr>"
proof -
  have "acquired \<and> list_ready"
    using assms by (auto simp: aws_statistics_handler_new_chain_def split: if_splits)
  then show ?thesis using assms new_chain_ok [of a cadence hs] by simp
qed

lemma chain_process_calls:
  "impl chain = Some ci \<Longrightarrow>
   s_chain_process_statistics chain iv sl ctx =
     Inr (map (\<lambda>h. Process_statistics h iv sl ctx) (handlers ci))"
  by (simp add: s_chain_process_statistics_def s_chain_process_loop_def fold_get_at
      fold_snoc_calls)

lemma fold_lookup_calls:
  "fold (\<lambda>i calls. case get_at i of Inl _ \<Rightarrow> calls | Inr h \<Rightarrow> calls @ [g h]) js acc
   = acc @ map g (concat (map (\<lambda>i. case get_at i of Inl e \<Rightarrow> [] | Inr x \<Rightarrow> [x]) js))"
  by (induction js arbitrary: acc) (simp_all split: sum.splits)

lemma chain_process_loop_calls:
  "s_chain_process_loop get_at n iv sl ctx =
     map (\<lambda>h. Process_statistics h iv sl ctx) (looked_up get_at n)"
  by (simp add: s_chain_process_loop_def looked_up_def fold_lookup_calls)

lemma chain_destroy_calls:
  "impl chain = Some ci \<Longrightarrow>
   s_chain_destroy (Some chain) =
     map Handler_destroy (handlers ci) @ [Array_list_clean_up, Mem_release (allocator chain)]"
  by (simp add: s_chain_destroy_def fold_get_at fold_snoc_calls)

lemma count_list_destroy:
  "count_list (map Handler_destroy xs) (Handler_destroy p) = count_list xs p"
  by (induction xs) simp_all

lemma count_list_distinct: "distinct xs \<Longrightarrow> p \<in> set xs \<Longrightarrow> count_list xs p = 1"
  by (induction xs) (auto simp: count_list_0_iff)

section \<open>Facts about the TLS monitor\<close>

text \<open>
  The scan leaves the start time \<open>start_time_after\<close> and the status of the last
  TLS record; with that the process operation is a four-way case distinction.
\<close>

lemma fold_visit:
  "fold (s_tls_monitor_visit iv) sl (i, st) =
     (i\<lparr>tls_start_time_ms := start_time_after i iv sl\<rparr>,
      if tls_statuses sl = [] then st else last (tls_statuses sl))"
proof (induction sl arbitrary: i st)
  case Nil
  show ?case by (simp add: start_time_after_def handshake_seen_def)
next
  case (Cons x sl)
  show ?case
  proof (cases x)
    case (Socket_stats s)
    then show ?thesis using Cons.IH [of i st]
      by (simp add: start_time_after_def handshake_seen_def)
  next
    case (Tls_stats t)
    then show ?thesis
      by (simp add: Cons.IH start_time_after_def handshake_seen_def Let_def)
  qed
qed

lemma scan_eq:
  "s_tls_monitor_scan i iv sl =
     (i\<lparr>tls_start_time_ms := start_time_after i iv sl\<rparr>, last_tls_status sl)"
  by (simp add: s_tls_monitor_scan_def fold_get_at fold_visit last_tls_status_def)

lemma process_eq:
  "s_tls_monitor_process_statistics h iv sl ctx =
     (case impl h of
        None \<Rightarrow> Inl Null_dereference
      | Some i \<Rightarrow>
          if tls_timeout_ms i = 0 \<or> last_tls_status sl \<noteq> AWS_MTLS_STATUS_ONGOING
          then Inr (h\<lparr>impl := Some (i\<lparr>tls_start_time_ms := start_time_after i iv sl\<rparr>)\<rparr>, [])
          else if \<not> start_time_after i iv sl \<le> end_time_ms iv then Inl Fatal_assert
          else if end_time_ms iv - start_time_after i iv sl < ucast (tls_timeout_ms i)
          then Inr (h\<lparr>impl := Some (i\<lparr>tls_start_time_ms := start_time_after i iv sl\<rparr>)\<rparr>, [])
          else Inr (h\<lparr>impl := Some (i\<lparr>tls_start_time_ms := start_time_after i iv sl\<rparr>)\<rparr>,
                    [Channel_shutdown ctx AWS_IO_CHANNEL_TLS_TIMEOUT]))"
  by (simp add: s_tls_monitor_process_statistics_def scan_eq split: option.splits)

lemma elapsed_word:
  fixes e s :: uint64_t and t :: uint32_t
  assumes "t \<noteq> 0" "uint t \<le> uint e - uint s"
  shows "s \<le> e \<and> \<not> e - s < ucast t"
proof -
  have tpos: "0 < uint t" using assms(1) by (simp add: word_neq_0_conv word_less_def)
  then have le: "s \<le> e" using assms(2) by (simp add: word_le_def)
  then have "uint (e - s) = uint e - uint s" by (simp add: uint_minus_simple_alt)
  moreover have "uint (ucast t :: uint64_t) = uint t" by (simp add: uint_up_ucast is_up)
  ultimately show ?thesis using le assms(2) by (simp add: word_less_def)
qed



lemma process_state:
  "s_tls_monitor_process_statistics h iv sl ctx = Inr (h', cs) \<Longrightarrow> impl h = Some i \<Longrightarrow>
   \<exists>i'. impl h' = Some i' \<and> tls_timeout_ms i' = tls_timeout_ms i
          \<and> tls_start_time_ms i' = start_time_after i iv sl"
  by (auto simp: process_eq split: if_splits)

lemma process_quiet:
  "impl h = Some i \<Longrightarrow> tls_timeout_ms i = 0 \<or> last_tls_status sl \<noteq> AWS_MTLS_STATUS_ONGOING \<Longrightarrow>
   s_tls_monitor_process_statistics h iv sl ctx =
     Inr (h\<lparr>impl := Some (i\<lparr>tls_start_time_ms := start_time_after i iv sl\<rparr>)\<rparr>, [])"
  by (simp add: process_eq)

subsection \<open>Runs\<close>

lemma run_append:
  "tls_monitor_run h (xs @ ys) =
     (case tls_monitor_run h xs of
        (cs, Inl a) \<Rightarrow> (cs, Inl a)
      | (cs, Inr h') \<Rightarrow> (case tls_monitor_run h' ys of (cs', r) \<Rightarrow> (cs @ cs', r)))"
proof (induction xs arbitrary: h)
  case Nil
  show ?case by simp
next
  case (Cons d xs)
  obtain iv sl ctx where d: "d = (iv, sl, ctx)" by (cases d)
  show ?case
    by (simp add: d Cons.IH split: sum.splits prod.splits)
qed

lemma run_disabled:
  "impl h = Some i \<Longrightarrow> tls_timeout_ms i = 0 \<Longrightarrow>
   fst (tls_monitor_run h ds) = [] \<and> (\<exists>h'. snd (tls_monitor_run h ds) = Inr h')"
proof (induction ds arbitrary: h i)
  case Nil
  show ?case by simp
next
  case (Cons d ds)
  obtain iv sl ctx where d: "d = (iv, sl, ctx)" by (cases d)
  let ?i = "i\<lparr>tls_start_time_ms := start_time_after i iv sl\<rparr>"
  let ?h = "h\<lparr>impl := Some ?i\<rparr>"
  have step: "s_tls_monitor_process_statistics h iv sl ctx = Inr (?h, [])"
    using Cons.prems by (simp add: process_quiet)
  have "fst (tls_monitor_run ?h ds) = [] \<and> (\<exists>h'. snd (tls_monitor_run ?h ds) = Inr h')"
    by (rule Cons.IH [of ?h ?i]) (simp_all add: Cons.prems)
  then show ?case by (auto simp: d step split: prod.splits)
qed

lemma run_not_ongoing:
  "\<forall>d \<in> set ds. last_tls_status (fst (snd d)) \<noteq> AWS_MTLS_STATUS_ONGOING \<Longrightarrow>
   fst (tls_monitor_run h ds) = []"
proof (induction ds arbitrary: h)
  case Nil
  show ?case by simp
next
  case (Cons d ds)
  obtain iv sl ctx where d: "d = (iv, sl, ctx)" by (cases d)
  have quiet: "last_tls_status sl \<noteq> AWS_MTLS_STATUS_ONGOING" using Cons.prems by (simp add: d)
  have tail: "\<forall>d \<in> set ds. last_tls_status (fst (snd d)) \<noteq> AWS_MTLS_STATUS_ONGOING"
    using Cons.prems by simp
  show ?case
  proof (cases "impl h")
    case None
    then show ?thesis by (simp add: d process_eq)
  next
    case (Some i)
    let ?h = "h\<lparr>impl := Some (i\<lparr>tls_start_time_ms := start_time_after i iv sl\<rparr>)\<rparr>"
    have step: "s_tls_monitor_process_statistics h iv sl ctx = Inr (?h, [])"
      using Some quiet by (simp add: process_quiet)
    have "fst (tls_monitor_run ?h ds) = []" by (rule Cons.IH [OF tail])
    then show ?thesis by (simp add: d step split: prod.splits)
  qed
qed

lemma run_start_fixed:
  "impl h = Some i \<Longrightarrow> tls_start_time_ms i \<noteq> 0 \<Longrightarrow>
   snd (tls_monitor_run h ds) = Inr h' \<Longrightarrow>
   map_option tls_start_time_ms (impl h') = Some (tls_start_time_ms i)"
proof (induction ds arbitrary: h i)
  case Nil
  then show ?case by auto
next
  case (Cons d ds)
  obtain iv sl ctx where d: "d = (iv, sl, ctx)" by (cases d)
  from Cons.prems(3) obtain h1 cs where
    step: "s_tls_monitor_process_statistics h iv sl ctx = Inr (h1, cs)"
    and rest: "snd (tls_monitor_run h1 ds) = Inr h'"
    by (auto simp: d split: sum.splits prod.splits)
  from process_state [OF step Cons.prems(1)] obtain i1 where
    i1: "impl h1 = Some i1" "tls_start_time_ms i1 = start_time_after i iv sl" by blast
  have same: "tls_start_time_ms i1 = tls_start_time_ms i"
    using i1(2) Cons.prems(2) by (simp add: start_time_after_def)
  show ?case using Cons.IH [OF i1(1) _ rest] same Cons.prems(2) by simp
qed

lemma run_start_unset:
  "impl h = Some i \<Longrightarrow> tls_start_time_ms i = 0 \<Longrightarrow>
   \<forall>d \<in> set ds. \<not> handshake_seen (fst (snd d)) \<Longrightarrow>
   snd (tls_monitor_run h ds) = Inr h' \<Longrightarrow>
   map_option tls_start_time_ms (impl h') = Some 0"
proof (induction ds arbitrary: h i)
  case Nil
  then show ?case by auto
next
  case (Cons d ds)
  obtain iv sl ctx where d: "d = (iv, sl, ctx)" by (cases d)
  from Cons.prems(4) obtain h1 cs where
    step: "s_tls_monitor_process_statistics h iv sl ctx = Inr (h1, cs)"
    and rest: "snd (tls_monitor_run h1 ds) = Inr h'"
    by (auto simp: d split: sum.splits prod.splits)
  from process_state [OF step Cons.prems(1)] obtain i1 where
    i1: "impl h1 = Some i1" "tls_start_time_ms i1 = start_time_after i iv sl" by blast
  have zero: "tls_start_time_ms i1 = 0"
    using i1(2) Cons.prems(2,3) by (simp add: start_time_after_def d)
  show ?case using Cons.IH [OF i1(1) zero _ rest] Cons.prems(3) by simp
qed

lemmas tls_eval = process_eq start_time_after_def last_tls_status_def handshake_seen_def

section \<open>The statistics records\<close>

text \<open>
  C9. Resetting a socket record zeroes both byte counters and doing it twice is
  the same as doing it once; resetting a TLS record returns the record as it
  was, so its handshake status is kept.
\<close>

theorem reset_socket_zero_idempotent_tls_noop:
  "bytes_read (aws_crt_statistics_socket_reset s) = 0
   \<and> bytes_written (aws_crt_statistics_socket_reset s) = 0
   \<and> aws_crt_statistics_socket_reset (aws_crt_statistics_socket_reset s)
       = aws_crt_statistics_socket_reset s
   \<and> aws_crt_statistics_tls_reset t = t
   \<and> handshake_status (aws_crt_statistics_tls_reset t) = handshake_status t"
  by (simp add: aws_crt_statistics_socket_reset_def aws_crt_statistics_tls_reset_def)

section \<open>The timeout\<close>

text \<open>
  C1. A process call with a non-zero timeout, whose record list ends its TLS
  records with status Ongoing, and whose interval ends at least the timeout
  after the start time the monitor holds once the list is scanned, shuts the
  channel down with the TLS-timeout error code, exactly that one call. The
  elapsed time is the difference of the two numbers, which is at least a
  non-zero timeout only when the interval does not end before the start time.
  In particular, a monitor built with timeout 1000 that is fed intervals ending
  at 100, 600 and 1200, each with one Ongoing TLS record, stamps 100 in the
  first call, makes no call on the channel in the first two, and shuts the
  channel down in the third: one shutdown in the whole run.
\<close>

theorem tls_timeout_shutdown:
  "(impl h = Some i \<and> tls_timeout_ms i \<noteq> 0
      \<and> last_tls_status sl = AWS_MTLS_STATUS_ONGOING
      \<and> uint (tls_timeout_ms i) \<le> uint (end_time_ms iv) - uint (start_time_after i iv sl)
    \<longrightarrow> s_tls_monitor_process_statistics h iv sl ctx =
          Inr (h\<lparr>impl := Some (i\<lparr>tls_start_time_ms := start_time_after i iv sl\<rparr>)\<rparr>,
               [Channel_shutdown ctx AWS_IO_CHANNEL_TLS_TIMEOUT]))
   \<and> (let ongoing = [Tls_stats \<lparr>handshake_status = AWS_MTLS_STATUS_ONGOING\<rparr>];
           h0 = \<lparr>allocator = a, impl = Some \<lparr>tls_timeout_ms = 1000, tls_start_time_ms = 0\<rparr>\<rparr>;
           h1 = \<lparr>allocator = a, impl = Some \<lparr>tls_timeout_ms = 1000, tls_start_time_ms = 100\<rparr>\<rparr>;
           d1 = \<lparr>start_time_ms = 0, end_time_ms = 100\<rparr>;
           d2 = \<lparr>start_time_ms = 100, end_time_ms = 600\<rparr>;
           d3 = \<lparr>start_time_ms = 600, end_time_ms = 1200\<rparr>
       in aws_crt_statistics_handler_new_tls_monitor a True
            \<lparr>aws_tls_monitor_options.tls_timeout_ms = 1000\<rparr> = Some h0
          \<and> s_tls_monitor_process_statistics h0 d1 ongoing c = Inr (h1, [])
          \<and> s_tls_monitor_process_statistics h1 d2 ongoing c = Inr (h1, [])
          \<and> s_tls_monitor_process_statistics h1 d3 ongoing c =
              Inr (h1, [Channel_shutdown c AWS_IO_CHANNEL_TLS_TIMEOUT])
          \<and> tls_monitor_run h0 [(d1, ongoing, c), (d2, ongoing, c), (d3, ongoing, c)] =
              ([Channel_shutdown c AWS_IO_CHANNEL_TLS_TIMEOUT], Inr h1))"
proof (intro conjI impI)
  assume a: "impl h = Some i \<and> tls_timeout_ms i \<noteq> 0
      \<and> last_tls_status sl = AWS_MTLS_STATUS_ONGOING
      \<and> uint (tls_timeout_ms i) \<le> uint (end_time_ms iv) - uint (start_time_after i iv sl)"
  then have "start_time_after i iv sl \<le> end_time_ms iv
      \<and> \<not> end_time_ms iv - start_time_after i iv sl < ucast (tls_timeout_ms i)"
    by (intro elapsed_word) simp_all
  then show "s_tls_monitor_process_statistics h iv sl ctx =
          Inr (h\<lparr>impl := Some (i\<lparr>tls_start_time_ms := start_time_after i iv sl\<rparr>)\<rparr>,
               [Channel_shutdown ctx AWS_IO_CHANNEL_TLS_TIMEOUT])"
    using a by (simp add: process_eq)
next
  show "let ongoing = [Tls_stats \<lparr>handshake_status = AWS_MTLS_STATUS_ONGOING\<rparr>];
           h0 = \<lparr>allocator = a, impl = Some \<lparr>tls_timeout_ms = 1000, tls_start_time_ms = 0\<rparr>\<rparr>;
           h1 = \<lparr>allocator = a, impl = Some \<lparr>tls_timeout_ms = 1000, tls_start_time_ms = 100\<rparr>\<rparr>;
           d1 = \<lparr>start_time_ms = 0, end_time_ms = 100\<rparr>;
           d2 = \<lparr>start_time_ms = 100, end_time_ms = 600\<rparr>;
           d3 = \<lparr>start_time_ms = 600, end_time_ms = 1200\<rparr>
       in aws_crt_statistics_handler_new_tls_monitor a True
            \<lparr>aws_tls_monitor_options.tls_timeout_ms = 1000\<rparr> = Some h0
          \<and> s_tls_monitor_process_statistics h0 d1 ongoing c = Inr (h1, [])
          \<and> s_tls_monitor_process_statistics h1 d2 ongoing c = Inr (h1, [])
          \<and> s_tls_monitor_process_statistics h1 d3 ongoing c =
              Inr (h1, [Channel_shutdown c AWS_IO_CHANNEL_TLS_TIMEOUT])
          \<and> tls_monitor_run h0 [(d1, ongoing, c), (d2, ongoing, c), (d3, ongoing, c)] =
              ([Channel_shutdown c AWS_IO_CHANNEL_TLS_TIMEOUT], Inr h1)"
    by (simp add: tls_eval aws_crt_statistics_handler_new_tls_monitor_def)
qed

theorem tls_timeout_shutdown_witness:
  "impl \<lparr>allocator = None :: nat option,
         impl = Some \<lparr>tls_timeout_ms = 1000, tls_start_time_ms = 100\<rparr>\<rparr>
     = Some \<lparr>tls_timeout_ms = 1000, tls_start_time_ms = 100\<rparr>
   \<and> tls_timeout_ms \<lparr>tls_timeout_ms = 1000, tls_start_time_ms = 100\<rparr> \<noteq> 0
   \<and> last_tls_status [Socket_stats \<lparr>bytes_read = 7, bytes_written = 9\<rparr>,
         Tls_stats \<lparr>handshake_status = AWS_MTLS_STATUS_ONGOING\<rparr>] = AWS_MTLS_STATUS_ONGOING
   \<and> uint (tls_timeout_ms \<lparr>tls_timeout_ms = 1000, tls_start_time_ms = 100\<rparr>)
       \<le> uint (end_time_ms \<lparr>start_time_ms = 600, end_time_ms = 1200\<rparr>)
         - uint (start_time_after \<lparr>tls_timeout_ms = 1000, tls_start_time_ms = 100\<rparr>
             \<lparr>start_time_ms = 600, end_time_ms = 1200\<rparr>
             [Socket_stats \<lparr>bytes_read = 7, bytes_written = 9\<rparr>,
              Tls_stats \<lparr>handshake_status = AWS_MTLS_STATUS_ONGOING\<rparr>])
   \<and> s_tls_monitor_process_statistics
         \<lparr>allocator = None :: nat option,
          impl = Some \<lparr>tls_timeout_ms = 1000, tls_start_time_ms = 100\<rparr>\<rparr>
         \<lparr>start_time_ms = 600, end_time_ms = 1200\<rparr>
         [Socket_stats \<lparr>bytes_read = 7, bytes_written = 9\<rparr>,
          Tls_stats \<lparr>handshake_status = AWS_MTLS_STATUS_ONGOING\<rparr>] (5 :: nat)
       = Inr (\<lparr>allocator = None,
               impl = Some \<lparr>tls_timeout_ms = 1000, tls_start_time_ms = 100\<rparr>\<rparr>,
              [Channel_shutdown 5 AWS_IO_CHANNEL_TLS_TIMEOUT])"
  using tls_timeout_shutdown
    [where h = "\<lparr>allocator = None :: nat option,
          impl = Some \<lparr>tls_timeout_ms = 1000, tls_start_time_ms = 100\<rparr>\<rparr>"
       and i = "\<lparr>tls_timeout_ms = 1000, tls_start_time_ms = 100\<rparr>"
       and sl = "[Socket_stats \<lparr>bytes_read = 7, bytes_written = 9\<rparr>,
          Tls_stats \<lparr>handshake_status = AWS_MTLS_STATUS_ONGOING\<rparr>]"
       and iv = "\<lparr>start_time_ms = 600, end_time_ms = 1200\<rparr>" and ctx = "5 :: nat",
     THEN conjunct1]
  by (simp add: start_time_after_def last_tls_status_def handshake_seen_def)

section \<open>The start time\<close>

text \<open>
  C3, as the claim states it, fails where the first interval that shows a
  handshake ends at time 0: the field keeps the value 0 that also means
  "not stamped", and the next call that shows a handshake stamps it again.
  A monitor built with timeout 1000 holds 0 after a call with end time 0 and an
  Ongoing record, and 500 after a second such call with end time 500.
\<close>

theorem start_time_restamped_counterexample:
  "handshake_seen [Tls_stats \<lparr>handshake_status = AWS_MTLS_STATUS_ONGOING\<rparr>]
   \<and> aws_crt_statistics_handler_new_tls_monitor (None :: nat option) True
        \<lparr>aws_tls_monitor_options.tls_timeout_ms = 1000\<rparr>
       = Some \<lparr>allocator = None, impl = Some \<lparr>tls_timeout_ms = 1000, tls_start_time_ms = 0\<rparr>\<rparr>
   \<and> tls_monitor_run
         \<lparr>allocator = None :: nat option,
          impl = Some \<lparr>tls_timeout_ms = 1000, tls_start_time_ms = 0\<rparr>\<rparr>
         [(\<lparr>start_time_ms = 0, end_time_ms = 0\<rparr>,
           [Tls_stats \<lparr>handshake_status = AWS_MTLS_STATUS_ONGOING\<rparr>], 5 :: nat)]
       = ([], Inr \<lparr>allocator = None,
                   impl = Some \<lparr>tls_timeout_ms = 1000, tls_start_time_ms = 0\<rparr>\<rparr>)
   \<and> tls_monitor_run
         \<lparr>allocator = None :: nat option,
          impl = Some \<lparr>tls_timeout_ms = 1000, tls_start_time_ms = 0\<rparr>\<rparr>
         [(\<lparr>start_time_ms = 0, end_time_ms = 0\<rparr>,
           [Tls_stats \<lparr>handshake_status = AWS_MTLS_STATUS_ONGOING\<rparr>], 5 :: nat),
          (\<lparr>start_time_ms = 0, end_time_ms = 500\<rparr>,
           [Tls_stats \<lparr>handshake_status = AWS_MTLS_STATUS_ONGOING\<rparr>], 5)]
       = ([], Inr \<lparr>allocator = None,
                   impl = Some \<lparr>tls_timeout_ms = 1000, tls_start_time_ms = 500\<rparr>\<rparr>)"
  by (simp add: s_tls_monitor_process_statistics_def s_tls_monitor_scan_def
      aws_array_list_get_at_def aws_array_list_length_def handshake_seen_def
      aws_crt_statistics_handler_new_tls_monitor_def)

text \<open>
  C3, amended. In the life of a monitor, from its construction on, the first
  process call whose record list has a TLS record with a status other than
  None assigns the end time of its interval to the start time, and when that
  end time is not 0 no later process call changes it: after any number of
  further calls that return, the field still holds that end time.
\<close>

theorem start_time_stamped_once:
  assumes "aws_crt_statistics_handler_new_tls_monitor a True options = Some h0"
    and "\<forall>d \<in> set before. \<not> handshake_seen (fst (snd d))"
    and "handshake_seen sl"
    and "end_time_ms iv \<noteq> 0"
    and "snd (tls_monitor_run h0 (before @ (iv, sl, ctx) # later)) = Inr h'"
  shows "map_option tls_start_time_ms (impl h') = Some (end_time_ms iv)"
proof -
  obtain i0 where i0: "impl h0 = Some i0" "tls_start_time_ms i0 = 0"
    using assms(1) by (auto simp: aws_crt_statistics_handler_new_tls_monitor_def)
  from assms(5) obtain cs1 h1 where
    r1: "tls_monitor_run h0 before = (cs1, Inr h1)"
    and r2: "snd (tls_monitor_run h1 ((iv, sl, ctx) # later)) = Inr h'"
    by (auto simp: run_append split: prod.splits sum.splits)
  from r1 have "snd (tls_monitor_run h0 before) = Inr h1" by simp
  from run_start_unset [OF i0 assms(2) this]
  obtain i1 where i1: "impl h1 = Some i1" "tls_start_time_ms i1 = 0" by auto
  from r2 obtain h2 cs2 where
    step: "s_tls_monitor_process_statistics h1 iv sl ctx = Inr (h2, cs2)"
    and r3: "snd (tls_monitor_run h2 later) = Inr h'"
    by (auto split: sum.splits prod.splits)
  from process_state [OF step i1(1)] obtain i2 where
    i2: "impl h2 = Some i2" "tls_start_time_ms i2 = start_time_after i1 iv sl" by blast
  have stamped: "tls_start_time_ms i2 = end_time_ms iv"
    using i2(2) i1(2) assms(3) by (simp add: start_time_after_def)
  from run_start_fixed [OF i2(1) _ r3] stamped assms(4) show ?thesis by simp
qed

theorem start_time_stamped_once_witness:
  "aws_crt_statistics_handler_new_tls_monitor (None :: nat option) True
       \<lparr>aws_tls_monitor_options.tls_timeout_ms = 1000\<rparr>
     = Some \<lparr>allocator = None, impl = Some \<lparr>tls_timeout_ms = 1000, tls_start_time_ms = 0\<rparr>\<rparr>
   \<and> \<not> handshake_seen
         (fst (snd (\<lparr>start_time_ms = 0, end_time_ms = 50\<rparr>,
                    [Tls_stats \<lparr>handshake_status = AWS_MTLS_STATUS_NONE\<rparr>], 5 :: nat)))
   \<and> handshake_seen [Tls_stats \<lparr>handshake_status = AWS_MTLS_STATUS_ONGOING\<rparr>]
   \<and> end_time_ms \<lparr>start_time_ms = 50, end_time_ms = 100\<rparr> \<noteq> 0
   \<and> snd (tls_monitor_run
         \<lparr>allocator = None :: nat option,
          impl = Some \<lparr>tls_timeout_ms = 1000, tls_start_time_ms = 0\<rparr>\<rparr>
         ([(\<lparr>start_time_ms = 0, end_time_ms = 50\<rparr>,
            [Tls_stats \<lparr>handshake_status = AWS_MTLS_STATUS_NONE\<rparr>], 5 :: nat)]
          @ (\<lparr>start_time_ms = 50, end_time_ms = 100\<rparr>,
             [Tls_stats \<lparr>handshake_status = AWS_MTLS_STATUS_ONGOING\<rparr>], 5)
          # [(\<lparr>start_time_ms = 100, end_time_ms = 600\<rparr>,
              [Tls_stats \<lparr>handshake_status = AWS_MTLS_STATUS_SUCCESS\<rparr>], 5)]))
       = Inr \<lparr>allocator = None,
              impl = Some \<lparr>tls_timeout_ms = 1000, tls_start_time_ms = 100\<rparr>\<rparr>
   \<and> map_option tls_start_time_ms
         (impl \<lparr>allocator = None :: nat option,
                impl = Some \<lparr>tls_timeout_ms = 1000, tls_start_time_ms = 100\<rparr>\<rparr>)
       = Some (end_time_ms \<lparr>start_time_ms = 50, end_time_ms = 100\<rparr>)"
  using start_time_stamped_once
    [where a = "None :: nat option"
       and options = "\<lparr>aws_tls_monitor_options.tls_timeout_ms = 1000\<rparr>"
       and ?h0.0 = "\<lparr>allocator = None, impl = Some \<lparr>tls_timeout_ms = 1000, tls_start_time_ms = 0\<rparr>\<rparr>"
       and before = "[(\<lparr>start_time_ms = 0, end_time_ms = 50\<rparr>,
            [Tls_stats \<lparr>handshake_status = AWS_MTLS_STATUS_NONE\<rparr>], 5 :: nat)]"
       and iv = "\<lparr>start_time_ms = 50, end_time_ms = 100\<rparr>"
       and sl = "[Tls_stats \<lparr>handshake_status = AWS_MTLS_STATUS_ONGOING\<rparr>]"
       and ctx = "5 :: nat"
       and later = "[(\<lparr>start_time_ms = 100, end_time_ms = 600\<rparr>,
              [Tls_stats \<lparr>handshake_status = AWS_MTLS_STATUS_SUCCESS\<rparr>], 5)]"
       and h' = "\<lparr>allocator = None,
              impl = Some \<lparr>tls_timeout_ms = 1000, tls_start_time_ms = 100\<rparr>\<rparr>"]
  by (simp add: tls_eval aws_crt_statistics_handler_new_tls_monitor_def)

section \<open>The assertion\<close>

text \<open>
  C4, as the claim states it, fails: the early return comes before the
  assertion. With the start time stamped at 100 and an interval that ends at
  50, the call returns without any abort when the TLS record shows Success, and
  also when the record shows Ongoing but the timeout is 0.
\<close>

theorem fatal_assert_skipped_counterexample:
  "tls_start_time_ms \<lparr>tls_timeout_ms = 1000, tls_start_time_ms = 100\<rparr> \<noteq> 0
   \<and> end_time_ms \<lparr>start_time_ms = 0, end_time_ms = 50\<rparr>
       < tls_start_time_ms \<lparr>tls_timeout_ms = 1000, tls_start_time_ms = 100\<rparr>
   \<and> s_tls_monitor_process_statistics
         \<lparr>allocator = None :: nat option,
          impl = Some \<lparr>tls_timeout_ms = 1000, tls_start_time_ms = 100\<rparr>\<rparr>
         \<lparr>start_time_ms = 0, end_time_ms = 50\<rparr>
         [Tls_stats \<lparr>handshake_status = AWS_MTLS_STATUS_SUCCESS\<rparr>] (5 :: nat)
       = Inr (\<lparr>allocator = None,
               impl = Some \<lparr>tls_timeout_ms = 1000, tls_start_time_ms = 100\<rparr>\<rparr>, [])
   \<and> s_tls_monitor_process_statistics
         \<lparr>allocator = None :: nat option,
          impl = Some \<lparr>tls_timeout_ms = 0, tls_start_time_ms = 100\<rparr>\<rparr>
         \<lparr>start_time_ms = 0, end_time_ms = 50\<rparr>
         [Tls_stats \<lparr>handshake_status = AWS_MTLS_STATUS_ONGOING\<rparr>] (5 :: nat)
       = Inr (\<lparr>allocator = None,
               impl = Some \<lparr>tls_timeout_ms = 0, tls_start_time_ms = 100\<rparr>\<rparr>, [])"
  by (simp add: s_tls_monitor_process_statistics_def s_tls_monitor_scan_def
      aws_array_list_get_at_def aws_array_list_length_def)

text \<open>
  C4, amended. A process call on a monitor whose timeout is not 0 and whose
  start time is stamped, with a record list whose last TLS record shows
  Ongoing and an interval that ends before the start time, aborts on the
  fatal assertion: no elapsed time is computed.
\<close>

theorem fatal_assert_on_earlier_end_time:
  assumes "impl h = Some i"
    and "tls_start_time_ms i \<noteq> 0"
    and "end_time_ms iv < tls_start_time_ms i"
    and "tls_timeout_ms i \<noteq> 0"
    and "last_tls_status sl = AWS_MTLS_STATUS_ONGOING"
  shows "s_tls_monitor_process_statistics h iv sl ctx = Inl Fatal_assert"
proof -
  have "start_time_after i iv sl = tls_start_time_ms i"
    using assms(2) by (simp add: start_time_after_def)
  then have "\<not> start_time_after i iv sl \<le> end_time_ms iv"
    using assms(3) by simp
  then show ?thesis using assms(1,4,5) by (simp add: process_eq)
qed

theorem fatal_assert_on_earlier_end_time_witness:
  "impl \<lparr>allocator = None :: nat option,
         impl = Some \<lparr>tls_timeout_ms = 1000, tls_start_time_ms = 100\<rparr>\<rparr>
     = Some \<lparr>tls_timeout_ms = 1000, tls_start_time_ms = 100\<rparr>
   \<and> tls_start_time_ms \<lparr>tls_timeout_ms = 1000, tls_start_time_ms = 100\<rparr> \<noteq> 0
   \<and> end_time_ms \<lparr>start_time_ms = 0, end_time_ms = 50\<rparr>
       < tls_start_time_ms \<lparr>tls_timeout_ms = 1000, tls_start_time_ms = 100\<rparr>
   \<and> tls_timeout_ms \<lparr>tls_timeout_ms = 1000, tls_start_time_ms = 100\<rparr> \<noteq> 0
   \<and> last_tls_status [Tls_stats \<lparr>handshake_status = AWS_MTLS_STATUS_ONGOING\<rparr>]
       = AWS_MTLS_STATUS_ONGOING
   \<and> s_tls_monitor_process_statistics
         \<lparr>allocator = None :: nat option,
          impl = Some \<lparr>tls_timeout_ms = 1000, tls_start_time_ms = 100\<rparr>\<rparr>
         \<lparr>start_time_ms = 0, end_time_ms = 50\<rparr>
         [Tls_stats \<lparr>handshake_status = AWS_MTLS_STATUS_ONGOING\<rparr>] (5 :: nat)
       = Inl Fatal_assert"
  using fatal_assert_on_earlier_end_time
    [where h = "\<lparr>allocator = None :: nat option,
          impl = Some \<lparr>tls_timeout_ms = 1000, tls_start_time_ms = 100\<rparr>\<rparr>"
       and i = "\<lparr>tls_timeout_ms = 1000, tls_start_time_ms = 100\<rparr>"
       and iv = "\<lparr>start_time_ms = 0, end_time_ms = 50\<rparr>"
       and sl = "[Tls_stats \<lparr>handshake_status = AWS_MTLS_STATUS_ONGOING\<rparr>]"
       and ctx = "5 :: nat"]
  by (simp add: last_tls_status_def)

section \<open>Whole runs\<close>

text \<open>
  C5. A monitor constructed with timeout 0 makes no call on the channel in any
  run: whatever the deliveries are, the list of channel calls is empty, and
  every call returns.
\<close>

theorem disabled_monitor_never_shuts_down:
  "\<exists>h. aws_crt_statistics_handler_new_tls_monitor a True
          \<lparr>aws_tls_monitor_options.tls_timeout_ms = 0\<rparr> = Some h
     \<and> fst (tls_monitor_run h ds) = []
     \<and> (\<exists>h'. snd (tls_monitor_run h ds) = Inr h')"
proof -
  let ?i = "\<lparr>tls_timeout_ms = 0, tls_start_time_ms = 0\<rparr>"
  let ?h = "\<lparr>allocator = a, impl = Some ?i\<rparr>"
  have "aws_crt_statistics_handler_new_tls_monitor a True
          \<lparr>aws_tls_monitor_options.tls_timeout_ms = 0\<rparr> = Some ?h"
    by (simp add: aws_crt_statistics_handler_new_tls_monitor_def)
  moreover have "fst (tls_monitor_run ?h ds) = [] \<and> (\<exists>h'. snd (tls_monitor_run ?h ds) = Inr h')"
    by (rule run_disabled [of ?h ?i]) simp_all
  ultimately show ?thesis by blast
qed

theorem disabled_monitor_never_shuts_down_witness:
  "\<exists>h. aws_crt_statistics_handler_new_tls_monitor (None :: nat option) True
          \<lparr>aws_tls_monitor_options.tls_timeout_ms = 0\<rparr> = Some h
     \<and> fst (tls_monitor_run h
           [(\<lparr>start_time_ms = 0, end_time_ms = 100\<rparr>,
             [Tls_stats \<lparr>handshake_status = AWS_MTLS_STATUS_ONGOING\<rparr>], 5 :: nat),
            (\<lparr>start_time_ms = 100, end_time_ms = 99999\<rparr>,
             [Tls_stats \<lparr>handshake_status = AWS_MTLS_STATUS_ONGOING\<rparr>], 5),
            (\<lparr>start_time_ms = 99999, end_time_ms = 7\<rparr>,
             [Tls_stats \<lparr>handshake_status = AWS_MTLS_STATUS_ONGOING\<rparr>], 5)]) = []
     \<and> (\<exists>h'. snd (tls_monitor_run h
           [(\<lparr>start_time_ms = 0, end_time_ms = 100\<rparr>,
             [Tls_stats \<lparr>handshake_status = AWS_MTLS_STATUS_ONGOING\<rparr>], 5 :: nat),
            (\<lparr>start_time_ms = 100, end_time_ms = 99999\<rparr>,
             [Tls_stats \<lparr>handshake_status = AWS_MTLS_STATUS_ONGOING\<rparr>], 5),
            (\<lparr>start_time_ms = 99999, end_time_ms = 7\<rparr>,
             [Tls_stats \<lparr>handshake_status = AWS_MTLS_STATUS_ONGOING\<rparr>], 5)]) = Inr h')"
  by (rule disabled_monitor_never_shuts_down)

text \<open>
  C6. When a run has made no channel call so far and the next delivery ends its
  TLS records with Success, then no channel call is made in that call nor in
  any later one, as long as every later record list ends its TLS records with
  a status other than Ongoing (or has none): the end times of the later
  intervals play no part.
\<close>

theorem no_shutdown_after_success:
  assumes "fst (tls_monitor_run h before) = []"
    and "last_tls_status sl = AWS_MTLS_STATUS_SUCCESS"
    and "\<forall>d \<in> set later. last_tls_status (fst (snd d)) \<noteq> AWS_MTLS_STATUS_ONGOING"
  shows "fst (tls_monitor_run h (before @ (iv, sl, ctx) # later)) = []"
proof -
  have quiet: "\<forall>d \<in> set ((iv, sl, ctx) # later).
      last_tls_status (fst (snd d)) \<noteq> AWS_MTLS_STATUS_ONGOING"
    using assms(2,3) by simp
  obtain cs r where run: "tls_monitor_run h before = (cs, r)" by (cases "tls_monitor_run h before")
  then have cs: "cs = []" using assms(1) by simp
  show ?thesis
  proof (cases r)
    case (Inl a)
    then show ?thesis by (simp add: run_append run cs)
  next
    case (Inr h1)
    have "fst (tls_monitor_run h1 ((iv, sl, ctx) # later)) = []"
      by (rule run_not_ongoing [OF quiet])
    then show ?thesis by (simp add: run_append run cs Inr split: prod.splits)
  qed
qed

theorem no_shutdown_after_success_witness:
  "fst (tls_monitor_run
          \<lparr>allocator = None :: nat option,
           impl = Some \<lparr>tls_timeout_ms = 1000, tls_start_time_ms = 0\<rparr>\<rparr>
          [(\<lparr>start_time_ms = 0, end_time_ms = 100\<rparr>,
            [Tls_stats \<lparr>handshake_status = AWS_MTLS_STATUS_ONGOING\<rparr>], 5 :: nat)]) = []
   \<and> last_tls_status [Tls_stats \<lparr>handshake_status = AWS_MTLS_STATUS_SUCCESS\<rparr>]
       = AWS_MTLS_STATUS_SUCCESS
   \<and> last_tls_status [Tls_stats \<lparr>handshake_status = AWS_MTLS_STATUS_SUCCESS\<rparr>]
       \<noteq> AWS_MTLS_STATUS_ONGOING
   \<and> last_tls_status [Socket_stats \<lparr>bytes_read = 1, bytes_written = 2\<rparr>]
       \<noteq> AWS_MTLS_STATUS_ONGOING
   \<and> fst (tls_monitor_run
          \<lparr>allocator = None :: nat option,
           impl = Some \<lparr>tls_timeout_ms = 1000, tls_start_time_ms = 0\<rparr>\<rparr>
          ([(\<lparr>start_time_ms = 0, end_time_ms = 100\<rparr>,
             [Tls_stats \<lparr>handshake_status = AWS_MTLS_STATUS_ONGOING\<rparr>], 5 :: nat)]
           @ (\<lparr>start_time_ms = 100, end_time_ms = 600\<rparr>,
              [Tls_stats \<lparr>handshake_status = AWS_MTLS_STATUS_SUCCESS\<rparr>], 5)
           # [(\<lparr>start_time_ms = 600, end_time_ms = 5000\<rparr>,
               [Tls_stats \<lparr>handshake_status = AWS_MTLS_STATUS_SUCCESS\<rparr>], 5),
              (\<lparr>start_time_ms = 5000, end_time_ms = 99999\<rparr>,
               [Socket_stats \<lparr>bytes_read = 1, bytes_written = 2\<rparr>], 5)])) = []"
  using no_shutdown_after_success
    [where h = "\<lparr>allocator = None :: nat option,
           impl = Some \<lparr>tls_timeout_ms = 1000, tls_start_time_ms = 0\<rparr>\<rparr>"
       and before = "[(\<lparr>start_time_ms = 0, end_time_ms = 100\<rparr>,
            [Tls_stats \<lparr>handshake_status = AWS_MTLS_STATUS_ONGOING\<rparr>], 5 :: nat)]"
       and sl = "[Tls_stats \<lparr>handshake_status = AWS_MTLS_STATUS_SUCCESS\<rparr>]"
       and iv = "\<lparr>start_time_ms = 100, end_time_ms = 600\<rparr>"
       and ctx = "5 :: nat"
       and later = "[(\<lparr>start_time_ms = 600, end_time_ms = 5000\<rparr>,
                     [Tls_stats \<lparr>handshake_status = AWS_MTLS_STATUS_SUCCESS\<rparr>], 5 :: nat),
                    (\<lparr>start_time_ms = 5000, end_time_ms = 99999\<rparr>,
                     [Socket_stats \<lparr>bytes_read = 1, bytes_written = 2\<rparr>], 5)]"]
  by (simp add: tls_eval)

section \<open>The cadence of a chain\<close>

text \<open>
  C2. Every chain that the constructor returns for a non-empty array of
  handlers answers \<open>get_report_interval_ms\<close> with the least of the cadences
  of those handlers: the value is computed in the constructor and the query
  reads the stored member.
\<close>

theorem chain_report_interval_is_minimum:
  assumes "hs \<noteq> []"
    and "aws_statistics_handler_new_chain a acquired list_ready cadence hs = (Some chain, calls)"
  shows "s_chain_get_report_interval_ms chain = Inr (Min (cadence ` set hs))"
  using assms new_chain_Some [OF assms(2)]
  by (simp add: s_chain_get_report_interval_ms_def min_UINT64_MAX)

theorem chain_report_interval_is_minimum_witness:
  "[Some (1 :: nat), None, Some 2] \<noteq> []
   \<and> aws_statistics_handler_new_chain (Some (0 :: nat)) True True
        (\<lambda>h. case h of None \<Rightarrow> 1000 | Some n \<Rightarrow> if n = 1 then 5000 else 250)
        [Some (1 :: nat), None, Some 2]
      = (Some \<lparr>allocator = Some 0,
               impl = Some \<lparr>handlers = [Some 1, None, Some 2], report_interval_ms = 250\<rparr>\<rparr>, [])
   \<and> s_chain_get_report_interval_ms
        \<lparr>allocator = Some (0 :: nat),
         impl = Some \<lparr>handlers = [Some (1 :: nat), None, Some 2], report_interval_ms = 250\<rparr>\<rparr>
      = Inr (Min ((\<lambda>h. case h of None \<Rightarrow> 1000 | Some n \<Rightarrow> if n = 1 then 5000 else 250)
                   ` set [Some (1 :: nat), None, Some 2]))"
proof -
  have built: "aws_statistics_handler_new_chain (Some (0 :: nat)) True True
        (\<lambda>h. case h of None \<Rightarrow> 1000 | Some n \<Rightarrow> if n = 1 then 5000 else 250)
        [Some (1 :: nat), None, Some 2]
      = (Some \<lparr>allocator = Some 0,
               impl = Some \<lparr>handlers = [Some 1, None, Some 2], report_interval_ms = 250\<rparr>\<rparr>, [])"
    by (simp add: aws_statistics_handler_new_chain_def aws_array_list_push_back_def
        UINT64_MAX_def upt_rec [of 0] upt_rec [of 1] upt_rec [of 2] upt_rec [of 3])
  show ?thesis
    using chain_report_interval_is_minimum [OF _ built] built by simp
qed

text \<open>
  C10. A chain that the constructor returns for an empty array answers
  \<open>get_report_interval_ms\<close> with \<^verbatim>\<open>UINT64_MAX\<close>, the number \<open>2 ^ 64 - 1\<close>.
\<close>

theorem empty_chain_reports_UINT64_MAX:
  assumes "aws_statistics_handler_new_chain a acquired list_ready cadence [] = (Some chain, calls)"
  shows "s_chain_get_report_interval_ms chain = Inr UINT64_MAX \<and> unat UINT64_MAX = 2 ^ 64 - 1"
  using new_chain_Some [OF assms]
  by (simp add: s_chain_get_report_interval_ms_def) (simp add: UINT64_MAX_def)

theorem empty_chain_reports_UINT64_MAX_witness:
  "aws_statistics_handler_new_chain (Some (0 :: nat)) True True (\<lambda>h :: nat option. 1000) []
     = (Some \<lparr>allocator = Some 0, impl = Some \<lparr>handlers = [], report_interval_ms = UINT64_MAX\<rparr>\<rparr>, [])
   \<and> s_chain_get_report_interval_ms
        \<lparr>allocator = Some (0 :: nat),
         impl = Some \<lparr>handlers = [] :: nat option list, report_interval_ms = UINT64_MAX\<rparr>\<rparr>
      = Inr UINT64_MAX
   \<and> unat UINT64_MAX = 2 ^ 64 - 1"
proof -
  have built: "aws_statistics_handler_new_chain (Some (0 :: nat)) True True (\<lambda>h :: nat option. 1000) []
     = (Some \<lparr>allocator = Some 0, impl = Some \<lparr>handlers = [], report_interval_ms = UINT64_MAX\<rparr>\<rparr>, [])"
    by (simp add: aws_statistics_handler_new_chain_def)
  show ?thesis
    using empty_chain_reports_UINT64_MAX [OF built] built by simp
qed

section \<open>Delivery through a chain\<close>

text \<open>
  C7, as the claim states it, fails for a member slot that holds \<^verbatim>\<open>NULL\<close>:
  the loop tests the result of the lookup, not the pointer it got, and hands
  the \<^verbatim>\<open>NULL\<close> to the process entry point like any other member. A chain
  whose members are \<^verbatim>\<open>NULL\<close> and one handler makes two calls, the first on
  \<^verbatim>\<open>NULL\<close>.
\<close>

theorem chain_forwards_null_member_counterexample:
  "s_chain_process_statistics
     \<lparr>allocator = Some (0 :: nat),
      impl = Some \<lparr>handlers = [None, Some (7 :: nat)], report_interval_ms = 1000\<rparr>\<rparr>
     \<lparr>start_time_ms = 0, end_time_ms = 100\<rparr>
     [Tls_stats \<lparr>handshake_status = AWS_MTLS_STATUS_ONGOING\<rparr>] (5 :: nat)
   = Inr [Process_statistics None \<lparr>start_time_ms = 0, end_time_ms = 100\<rparr>
            [Tls_stats \<lparr>handshake_status = AWS_MTLS_STATUS_ONGOING\<rparr>] 5,
          Process_statistics (Some 7) \<lparr>start_time_ms = 0, end_time_ms = 100\<rparr>
            [Tls_stats \<lparr>handshake_status = AWS_MTLS_STATUS_ONGOING\<rparr>] 5]"
  by (simp add: s_chain_process_statistics_def s_chain_process_loop_def
      aws_array_list_get_at_def aws_array_list_length_def
      upt_rec [of 0] upt_rec [of 1] upt_rec [of 2])

text \<open>
  C7, amended. A process call on a chain runs the loop with the lookup in the
  member list. The loop calls the process entry point once for every index
  whose lookup succeeds, in index order, each time with the same interval,
  record list and context, and a failed lookup is passed over without any
  effect on the calls before and after it. In the chain no lookup fails: a
  chain that the constructor returned calls the entry point once for every
  member slot, \<^verbatim>\<open>NULL\<close> slots included, in the order in which the handlers
  were given to the constructor.
\<close>

theorem chain_process_delivers_in_order:
  "(impl chain = Some ci \<longrightarrow>
      s_chain_process_statistics chain iv sl ctx =
        Inr (s_chain_process_loop (aws_array_list_get_at (handlers ci))
               (aws_array_list_length (handlers ci)) iv sl ctx))
   \<and> s_chain_process_loop get_at n iv sl ctx =
       map (\<lambda>h. Process_statistics h iv sl ctx) (looked_up get_at n)
   \<and> (get_at n = Inl e \<longrightarrow>
        s_chain_process_loop get_at (Suc n + k) iv sl ctx =
          s_chain_process_loop get_at n iv sl ctx
          @ s_chain_process_loop (\<lambda>i. get_at (Suc n + i)) k iv sl ctx)
   \<and> (aws_statistics_handler_new_chain a acquired list_ready cadence hs = (Some chain, calls) \<longrightarrow>
        s_chain_process_statistics chain iv sl ctx =
          Inr (map (\<lambda>h. Process_statistics h iv sl ctx) hs))"
proof (intro conjI impI)
  assume "impl chain = Some ci"
  then show "s_chain_process_statistics chain iv sl ctx =
        Inr (s_chain_process_loop (aws_array_list_get_at (handlers ci))
               (aws_array_list_length (handlers ci)) iv sl ctx)"
    by (simp add: s_chain_process_statistics_def)
next
  show "s_chain_process_loop get_at n iv sl ctx =
       map (\<lambda>h. Process_statistics h iv sl ctx) (looked_up get_at n)"
    by (rule chain_process_loop_calls)
next
  assume failed: "get_at n = Inl e"
  have split: "[0..<Suc n + k] = [0..<n] @ [n] @ map (\<lambda>i. Suc n + i) [0..<k]"
  proof -
    have "[0..<Suc n + k] = [0..<Suc n] @ [Suc n..<Suc n + k]"
      by (rule upt_add_eq_append) simp
    moreover have "[Suc n..<Suc n + k] = map (\<lambda>i. Suc n + i) [0..<k]"
      by (induction k) simp_all
    ultimately show ?thesis by simp
  qed
  have "looked_up get_at (Suc n + k) = looked_up get_at n @ looked_up (\<lambda>i. get_at (Suc n + i)) k"
    unfolding looked_up_def split using failed by (simp add: comp_def)
  then show "s_chain_process_loop get_at (Suc n + k) iv sl ctx =
          s_chain_process_loop get_at n iv sl ctx
          @ s_chain_process_loop (\<lambda>i. get_at (Suc n + i)) k iv sl ctx"
    by (simp add: chain_process_loop_calls)
next
  assume "aws_statistics_handler_new_chain a acquired list_ready cadence hs = (Some chain, calls)"
  from new_chain_Some [OF this]
  show "s_chain_process_statistics chain iv sl ctx =
          Inr (map (\<lambda>h. Process_statistics h iv sl ctx) hs)"
    by (simp add: chain_process_calls)
qed

theorem chain_process_delivers_in_order_witness:
  "aws_statistics_handler_new_chain (Some (0 :: nat)) True True (\<lambda>h. 1000)
     [Some (3 :: nat), None, Some 7, Some 3]
   = (Some \<lparr>allocator = Some 0,
            impl = Some \<lparr>handlers = [Some 3, None, Some 7, Some 3],
                         report_interval_ms = 1000\<rparr>\<rparr>, [])
   \<and> s_chain_process_statistics
       \<lparr>allocator = Some (0 :: nat),
        impl = Some \<lparr>handlers = [Some (3 :: nat), None, Some 7, Some 3],
                     report_interval_ms = 1000\<rparr>\<rparr>
       \<lparr>start_time_ms = 0, end_time_ms = 100\<rparr> [] (5 :: nat)
     = Inr (map (\<lambda>h. Process_statistics h \<lparr>start_time_ms = 0, end_time_ms = 100\<rparr> [] 5)
             [Some 3, None, Some 7, Some 3])
   \<and> (if (1 :: nat) = 1 then Inl AWS_ERROR_INVALID_INDEX else Inr (Some (1 :: nat)))
       = Inl AWS_ERROR_INVALID_INDEX
   \<and> s_chain_process_loop
       (\<lambda>i. if i = 1 then Inl AWS_ERROR_INVALID_INDEX else Inr (Some i)) (Suc 1 + 1)
       \<lparr>start_time_ms = 0, end_time_ms = 100\<rparr> [] (5 :: nat)
     = [Process_statistics (Some 0) \<lparr>start_time_ms = 0, end_time_ms = 100\<rparr> [] 5,
        Process_statistics (Some 2) \<lparr>start_time_ms = 0, end_time_ms = 100\<rparr> [] 5]"
proof -
  have built: "aws_statistics_handler_new_chain (Some (0 :: nat)) True True (\<lambda>h. 1000)
     [Some (3 :: nat), None, Some 7, Some 3]
   = (Some \<lparr>allocator = Some 0,
            impl = Some \<lparr>handlers = [Some 3, None, Some 7, Some 3],
                         report_interval_ms = 1000\<rparr>\<rparr>, [])"
    by (simp add: aws_statistics_handler_new_chain_def aws_array_list_push_back_def
        UINT64_MAX_def upt_rec [of 0] upt_rec [of 1] upt_rec [of 2] upt_rec [of 3]
        upt_rec [of 4])
  note inst = chain_process_delivers_in_order
    [where a = "Some (0 :: nat)" and acquired = True and list_ready = True
       and cadence = "\<lambda>h. 1000" and hs = "[Some (3 :: nat), None, Some 7, Some 3]"
       and chain = "\<lparr>allocator = Some 0,
            impl = Some \<lparr>handlers = [Some 3, None, Some 7, Some 3],
                         report_interval_ms = 1000\<rparr>\<rparr>"
       and calls = "[]"
       and iv = "\<lparr>start_time_ms = 0, end_time_ms = 100\<rparr>" and sl = "[]" and ctx = "5 :: nat"
       and get_at = "\<lambda>i. if i = 1 then Inl AWS_ERROR_INVALID_INDEX else Inr (Some i)"
       and n = 1 and k = 1 and e = AWS_ERROR_INVALID_INDEX]
  have delivered: "s_chain_process_statistics
       \<lparr>allocator = Some (0 :: nat),
        impl = Some \<lparr>handlers = [Some (3 :: nat), None, Some 7, Some 3],
                     report_interval_ms = 1000\<rparr>\<rparr>
       \<lparr>start_time_ms = 0, end_time_ms = 100\<rparr> [] (5 :: nat)
     = Inr (map (\<lambda>h. Process_statistics h \<lparr>start_time_ms = 0, end_time_ms = 100\<rparr> [] 5)
             [Some 3, None, Some 7, Some 3])"
    using inst built by simp
  have skipped: "s_chain_process_loop
       (\<lambda>i. if i = 1 then Inl AWS_ERROR_INVALID_INDEX else Inr (Some i)) (Suc 1 + 1)
       \<lparr>start_time_ms = 0, end_time_ms = 100\<rparr> [] (5 :: nat)
     = [Process_statistics (Some 0) \<lparr>start_time_ms = 0, end_time_ms = 100\<rparr> [] 5,
        Process_statistics (Some 2) \<lparr>start_time_ms = 0, end_time_ms = 100\<rparr> [] 5]"
    using inst by (simp add: s_chain_process_loop_def upt_rec [of 0] upt_rec [of 1])
  show ?thesis using built delivered skipped by simp
qed

section \<open>Destruction of a chain\<close>

text \<open>
  C8, as the claim states it, fails for a chain that holds one handler in two
  slots: the loop visits slots and does not look for repeated pointers, so
  that handler is destroyed twice.
\<close>

theorem chain_destroys_repeated_member_twice_counterexample:
  "s_chain_destroy
     (Some \<lparr>allocator = Some (0 :: nat),
            impl = Some \<lparr>handlers = [Some (3 :: nat), Some 3], report_interval_ms = 1000\<rparr>\<rparr>)
   = [Handler_destroy (Some 3), Handler_destroy (Some 3), Array_list_clean_up,
      Mem_release (Some 0)]
   \<and> count_list
         (s_chain_destroy
           (Some \<lparr>allocator = Some (0 :: nat),
                  impl = Some \<lparr>handlers = [Some (3 :: nat), Some 3],
                               report_interval_ms = 1000\<rparr>\<rparr>))
         (Handler_destroy (Some 3)) = 2"
  by (simp add: s_chain_destroy_def aws_array_list_get_at_def aws_array_list_length_def
      upt_rec [of 0] upt_rec [of 1] upt_rec [of 2])

text \<open>
  C8, amended. Destroying a chain calls the destroy entry point once for every
  member slot, in slot order, none skipped and none visited twice, then cleans
  up the member list, then releases the memory of the chain, and makes no
  other call; this holds for every number of members, none included. So a
  handler is destroyed as many times as it has slots: exactly once when the
  members are distinct.
\<close>

theorem chain_destroy_each_member_once:
  assumes "aws_statistics_handler_new_chain a acquired list_ready cadence hs = (Some chain, calls)"
  shows "s_chain_destroy (Some chain) =
           map Handler_destroy hs @ [Array_list_clean_up, Mem_release a]
         \<and> (\<forall>p. count_list (s_chain_destroy (Some chain)) (Handler_destroy p) = count_list hs p)
         \<and> (distinct hs \<longrightarrow>
              (\<forall>p \<in> set hs. count_list (s_chain_destroy (Some chain)) (Handler_destroy p) = 1))
         \<and> (hs = [] \<longrightarrow> s_chain_destroy (Some chain) = [Array_list_clean_up, Mem_release a])"
proof -
  have calls: "s_chain_destroy (Some chain) =
      map Handler_destroy hs @ [Array_list_clean_up, Mem_release a]"
    using new_chain_Some [OF assms] by (simp add: chain_destroy_calls)
  have total: "count_list (s_chain_destroy (Some chain)) (Handler_destroy p) = count_list hs p"
    for p
    by (simp add: calls count_list_destroy)
  show ?thesis using calls total by (simp add: count_list_distinct)
qed

theorem chain_destroy_each_member_once_witness:
  "aws_statistics_handler_new_chain (Some (0 :: nat)) True True (\<lambda>h. 1000)
     [Some (3 :: nat), Some 7]
   = (Some \<lparr>allocator = Some 0,
            impl = Some \<lparr>handlers = [Some 3, Some 7], report_interval_ms = 1000\<rparr>\<rparr>, [])
   \<and> distinct [Some (3 :: nat), Some 7]
   \<and> s_chain_destroy
       (Some \<lparr>allocator = Some (0 :: nat),
              impl = Some \<lparr>handlers = [Some (3 :: nat), Some 7], report_interval_ms = 1000\<rparr>\<rparr>)
     = [Handler_destroy (Some 3), Handler_destroy (Some 7), Array_list_clean_up,
        Mem_release (Some 0)]
   \<and> count_list
         (s_chain_destroy
           (Some \<lparr>allocator = Some (0 :: nat),
                  impl = Some \<lparr>handlers = [Some (3 :: nat), Some 7],
                               report_interval_ms = 1000\<rparr>\<rparr>))
         (Handler_destroy (Some 3)) = 1
   \<and> count_list
         (s_chain_destroy
           (Some \<lparr>allocator = Some (0 :: nat),
                  impl = Some \<lparr>handlers = [Some (3 :: nat), Some 7],
                               report_interval_ms = 1000\<rparr>\<rparr>))
         (Handler_destroy (Some 7)) = 1"
proof -
  have built: "aws_statistics_handler_new_chain (Some (0 :: nat)) True True (\<lambda>h. 1000)
     [Some (3 :: nat), Some 7]
   = (Some \<lparr>allocator = Some 0,
            impl = Some \<lparr>handlers = [Some 3, Some 7], report_interval_ms = 1000\<rparr>\<rparr>, [])"
    by (simp add: aws_statistics_handler_new_chain_def aws_array_list_push_back_def
        UINT64_MAX_def upt_rec [of 0] upt_rec [of 1] upt_rec [of 2])
  show ?thesis
    using chain_destroy_each_member_once [OF built] built by simp
qed

end
